theory Spec2Isabelle
  imports Main
begin

section \<open>The intrinsics filter script \<^verbatim>\<open>filter-intel-xml.py\<close>\<close>

text \<open>
  The script parses an element tree, walks the children of its root, keeps those whose
  \<^verbatim>\<open>tech\<close> attribute equals an optional tag and prints, for each one, a signature built
  from its \<^verbatim>\<open>parameter\<close> children and one line per \<^verbatim>\<open>instruction\<close> child.

  Strings are modelled as \<^typ>\<open>string\<close>; the attribute values of the document are taken
  to be ASCII text, so that a character of the model is a character of the Python string.
\<close>

subsection \<open>Element trees and dictionaries\<close>

text \<open>
  An element of \<^verbatim>\<open>xml.etree.ElementTree\<close>: its tag, its attribute dictionary and its
  child elements in document order. Text and tail are never read by the script.
\<close>

datatype element =
  Element (tag: string) (attrib: "string \<rightharpoonup> string") (children: "element list")

text \<open>
  An uncaught exception. \<^verbatim>\<open>d[k]\<close> on a dictionary raises \<^verbatim>\<open>KeyError(k)\<close>;
  \<open>DocumentError\<close> stands for whatever \<^verbatim>\<open>xml.parse\<close> raises on an unreadable or
  malformed file.
\<close>

datatype error = KeyError string | DocumentError

text \<open>\<^verbatim>\<open>d[k]\<close>\<close>

definition getitem :: "(string \<rightharpoonup> string) \<Rightarrow> string \<Rightarrow> error + string" where
  "getitem d k = (case d k of None \<Rightarrow> Inl (KeyError k) | Some v \<Rightarrow> Inr v)"

text \<open>\<^verbatim>\<open>d.get(k, default)\<close>\<close>

definition get_default :: "(string \<rightharpoonup> string) \<Rightarrow> string \<Rightarrow> string \<Rightarrow> string" where
  "get_default d k dflt = (case d k of None \<Rightarrow> dflt | Some v \<Rightarrow> v)"

text \<open>\<^verbatim>\<open>e.findall(t)\<close> with a plain tag name: the direct children with that tag, in
  document order.\<close>

definition findall :: "string \<Rightarrow> element \<Rightarrow> element list" where
  "findall t e = filter (\<lambda>c. tag c = t) (children e)"

subsection \<open>Constants of the script\<close>

definition SKIPZERO :: bool where
  "SKIPZERO = True"

definition COLORS :: bool where
  "COLORS = True"

text \<open>
  The colour strings are empty and are overwritten when \<^verbatim>\<open>COLORS\<close> is set. The flag is
  a parameter of the model, so that both settings can be spoken about. \<open>CHR 0x1B\<close> is
  the escape character (\<^verbatim>\<open>\033\<close>, \<^verbatim>\<open>\x1b\<close>, \<^verbatim>\<open>\33\<close>).
\<close>

definition CBLUE :: "bool \<Rightarrow> string" where
  "CBLUE colors = (if colors then CHR 0x1B # ''[94m'' else [])"

definition CGREEN :: "bool \<Rightarrow> string" where
  "CGREEN colors = (if colors then CHR 0x1B # ''[92m'' else [])"

definition CEND :: "bool \<Rightarrow> string" where
  "CEND colors = (if colors then CHR 0x1B # ''[0m'' else [])"

definition CBEIGE :: "bool \<Rightarrow> string" where
  "CBEIGE colors = (if colors then CHR 0x1B # ''[36m'' else [])"

text \<open>The backspace \<^verbatim>\<open>"\b"\<close> used as default for a missing optional attribute, and
  the line break that \<^verbatim>\<open>print\<close> appends.\<close>

definition backspace :: string where
  "backspace = [CHR 0x08]"

definition newline :: string where
  "newline = [CHR 0x0A]"

text \<open>
  \<^verbatim>\<open>str.lower()\<close> on ASCII text: the letters \<open>A\<close> to \<open>Z\<close> become \<open>a\<close> to \<open>z\<close>, every
  other ASCII character stays. Python's \<^verbatim>\<open>str.lower()\<close> also lowers letters outside
  ASCII, which \<open>lower_char\<close> leaves as they are: \<open>lower\<close> is the script's lowercasing
  on the strings that satisfy \<open>ascii\<close> only, and what is proved about the lower-case
  name is proved for those.
\<close>

definition lower_char :: "char \<Rightarrow> char" where
  "lower_char c =
     (if 65 \<le> (of_char c :: nat) \<and> (of_char c :: nat) \<le> 90
      then char_of (of_char c + (32 :: nat)) else c)"

definition lower :: "string \<Rightarrow> string" where
  "lower s = map lower_char s"

text \<open>A string of ASCII characters (code points below 128).\<close>

definition ascii :: "string \<Rightarrow> bool" where
  "ascii s \<longleftrightarrow> list_all (\<lambda>c. (of_char c :: nat) < 128) s"

subsection \<open>The signature\<close>

text \<open>
  One round of the loop over \<^verbatim>\<open>child.findall("parameter")\<close>: the text appended to
  \<^verbatim>\<open>intrinsic_name\<close>, or the \<^verbatim>\<open>KeyError\<close> of \<^verbatim>\<open>arg.attrib["type"]\<close>.
\<close>

definition parameter_text :: "bool \<Rightarrow> element \<Rightarrow> error + string" where
  "parameter_text colors arg =
     (case getitem (attrib arg) ''type'' of
        Inl e \<Rightarrow> Inl e
      | Inr typ \<Rightarrow>
          (let name = get_default (attrib arg) ''varname'' backspace
           in Inr (CBEIGE colors @ typ @ CBLUE colors @ '' '' @ name @ '', '')))"

text \<open>The loop itself, on the string built so far.\<close>

fun add_parameters :: "bool \<Rightarrow> element list \<Rightarrow> string \<Rightarrow> error + string" where
  "add_parameters colors [] acc = Inr acc"
| "add_parameters colors (arg # args) acc =
     (case parameter_text colors arg of
        Inl e \<Rightarrow> Inl e
      | Inr s \<Rightarrow> add_parameters colors args (acc @ s))"

text \<open>
  \<^verbatim>\<open>s[:-2]\<close>: the string without its last two characters, empty when it has fewer
  than two (the subtraction on \<^typ>\<open>nat\<close> stops at 0, as the slice does).
\<close>

definition drop_last2 :: "string \<Rightarrow> string" where
  "drop_last2 s = take (length s - 2) s"

text \<open>The value of \<^verbatim>\<open>intrinsic_name\<close> once the closing parenthesis is added.\<close>

definition intrinsic_name :: "bool \<Rightarrow> element \<Rightarrow> error + string" where
  "intrinsic_name colors child =
     (case getitem (attrib child) ''name'' of
        Inl e \<Rightarrow> Inl e
      | Inr n \<Rightarrow>
          (case add_parameters colors (findall ''parameter'' child) (n @ ''('') of
             Inl e \<Rightarrow> Inl e
           | Inr s \<Rightarrow> Inr (drop_last2 s @ '')'')))"

subsection \<open>The instruction lines\<close>

text \<open>What one round of the loop over \<^verbatim>\<open>instructions\<close> prints, or the
  \<^verbatim>\<open>KeyError\<close> of \<^verbatim>\<open>attribs["name"]\<close>.\<close>

definition instruction_line :: "bool \<Rightarrow> element \<Rightarrow> error + string" where
  "instruction_line colors instr =
     (case getitem (attrib instr) ''name'' of
        Inl e \<Rightarrow> Inl e
      | Inr n \<Rightarrow>
          (let name = lower n;
               form = get_default (attrib instr) ''form'' backspace
           in Inr (CGREEN colors @ name @ CEND colors @ '' '' @ form @ newline)))"

text \<open>
  The loop: the text written to standard output, and the exception that ended it, if
  any. What was printed before an exception stays printed.
\<close>

fun print_instructions :: "bool \<Rightarrow> element list \<Rightarrow> string \<times> error option" where
  "print_instructions colors [] = ([], None)"
| "print_instructions colors (instr # rest) =
     (case instruction_line colors instr of
        Inl e \<Rightarrow> ([], Some e)
      | Inr line \<Rightarrow>
          (case print_instructions colors rest of
             (out, r) \<Rightarrow> (line @ out, r)))"

subsection \<open>The main loop\<close>

text \<open>
  The guard \<^verbatim>\<open>len(tech) != 0 and child.attrib["tech"] != tech\<close>: whether the round
  ends at \<^verbatim>\<open>continue\<close>. The attribute is read only when a tag was given.
\<close>

definition filtered_out :: "string \<Rightarrow> element \<Rightarrow> error + bool" where
  "filtered_out tech child =
     (if length tech \<noteq> 0
      then (case getitem (attrib child) ''tech'' of
              Inl e \<Rightarrow> Inl e
            | Inr t \<Rightarrow> Inr (t \<noteq> tech))
      else Inr False)"

text \<open>One round of the loop over the children of the root: what it prints and the
  exception it raises, if any.\<close>

definition loop_body :: "bool \<Rightarrow> bool \<Rightarrow> string \<Rightarrow> element \<Rightarrow> string \<times> error option" where
  "loop_body skipzero colors tech child =
     (case filtered_out tech child of
        Inl e \<Rightarrow> ([], Some e)
      | Inr True \<Rightarrow> ([], None)
      | Inr False \<Rightarrow>
          (let instructions = findall ''instruction'' child;
               instr_no = length instructions
           in case intrinsic_name colors child of
                Inl e \<Rightarrow> ([], Some e)
              | Inr sig \<Rightarrow>
                  if instr_no = 0 \<and> skipzero then ([], None)
                  else
                    (let header =
                       (if instr_no = 1 then CBLUE colors @ sig @ CEND colors @ '': ''
                        else CBLUE colors @ sig @ CEND colors @ newline)
                     in case print_instructions colors instructions of
                          (out, r) \<Rightarrow> (header @ out, r))))"

fun main_loop :: "bool \<Rightarrow> bool \<Rightarrow> string \<Rightarrow> element list \<Rightarrow> string \<times> error option" where
  "main_loop skipzero colors tech [] = ([], None)"
| "main_loop skipzero colors tech (child # rest) =
     (case loop_body skipzero colors tech child of
        (out, Some e) \<Rightarrow> (out, Some e)
      | (out, None) \<Rightarrow>
          (case main_loop skipzero colors tech rest of
             (out', r) \<Rightarrow> (out @ out', r)))"

subsection \<open>The script\<close>

text \<open>
  How a run ends: \<^verbatim>\<open>exit(n)\<close> or the end of the script (status 0), or an uncaught
  exception.
\<close>

datatype ending = Exit nat | Uncaught error

text \<open>What a run does: the text on standard output, the paths handed to
  \<^verbatim>\<open>xml.parse\<close>, and how it ended.\<close>

record outcome =
  stdout :: string
  parsed :: "string list"
  status :: ending

text \<open>
  The tag: \<^verbatim>\<open>tech = ''\<close>, replaced by \<^verbatim>\<open>sys.argv[2]\<close> when there are exactly three
  arguments (see \<open>tech_arg\<close>).

  The script, on \<^verbatim>\<open>sys.argv\<close>. The file system and the parser are the parameter
  \<open>parse\<close>: the root element of the document at a path, or the error.
\<close>

definition tech_arg :: "string list \<Rightarrow> string" where
  "tech_arg argv = (if length argv = 3 then argv ! 2 else [])"

definition script ::
  "bool \<Rightarrow> bool \<Rightarrow> (string \<Rightarrow> error + element) \<Rightarrow> string list \<Rightarrow> outcome" where
  "script skipzero colors parse argv =
     (if length argv \<ge> 2 then
        (let filename = argv ! 1;
             tech = tech_arg argv
         in case parse filename of
              Inl e \<Rightarrow> \<lparr>stdout = [], parsed = [filename], status = Uncaught e\<rparr>
            | Inr root \<Rightarrow>
                (case main_loop skipzero colors tech (children root) of
                   (out, None) \<Rightarrow> \<lparr>stdout = out, parsed = [filename], status = Exit 0\<rparr>
                 | (out, Some e) \<Rightarrow>
                     \<lparr>stdout = out, parsed = [filename], status = Uncaught e\<rparr>))
      else \<lparr>stdout = ''Not enough arguments'' @ newline, parsed = [], status = Exit 1\<rparr>)"

subsection \<open>The data model and the filter\<close>

text \<open>
  The data model of the specification: an entry carries \<^verbatim>\<open>name\<close> and \<^verbatim>\<open>tech\<close>,
  each of its parameters a \<^verbatim>\<open>type\<close> and each of its instructions a \<^verbatim>\<open>name\<close>. The
  attributes \<^verbatim>\<open>varname\<close> and \<^verbatim>\<open>form\<close> are optional. Parsing does not check any of
  this.
\<close>

definition well_formed :: "element \<Rightarrow> bool" where
  "well_formed e \<longleftrightarrow>
     attrib e ''name'' \<noteq> None \<and> attrib e ''tech'' \<noteq> None \<and>
     list_all (\<lambda>p. attrib p ''type'' \<noteq> None) (findall ''parameter'' e) \<and>
     list_all (\<lambda>i. attrib i ''name'' \<noteq> None) (findall ''instruction'' e)"

text \<open>The filtering rule of the specification: no tag, or a \<^verbatim>\<open>tech\<close> attribute equal to
  the tag.\<close>

definition passes_filter :: "string \<Rightarrow> element \<Rightarrow> bool" where
  "passes_filter tech e \<longleftrightarrow> tech = [] \<or> attrib e ''tech'' = Some tech"

subsection \<open>Example documents\<close>

text \<open>An entry with no parameter child and one instruction.\<close>

definition pause_entry :: element where
  "pause_entry =
     Element ''intrinsic'' (map_of [(''name'', ''_mm_pause''), (''tech'', ''SSE2'')])
       [Element ''instruction'' (map_of [(''name'', ''PAUSE'')]) []]"

text \<open>The entry of the specification's first example: two named parameters, one
  instruction with a form.\<close>

definition add_entry :: element where
  "add_entry =
     Element ''intrinsic'' (map_of [(''name'', ''_mm_add_epi32''), (''tech'', ''SSE2'')])
       [Element ''parameter'' (map_of [(''type'', ''__m128i''), (''varname'', ''a'')]) [],
        Element ''parameter'' (map_of [(''type'', ''__m128i''), (''varname'', ''b'')]) [],
        Element ''instruction'' (map_of [(''name'', ''PADDD''), (''form'', ''xmm, xmm'')]) []]"

text \<open>A cast: one parameter, no instruction.\<close>

definition cast_entry :: element where
  "cast_entry =
     Element ''intrinsic'' (map_of [(''name'', ''_mm_castps_si128''), (''tech'', ''SSE2'')])
       [Element ''parameter'' (map_of [(''type'', ''__m128''), (''varname'', ''a'')]) []]"

text \<open>A parameter without \<^verbatim>\<open>varname\<close> and one instruction without \<^verbatim>\<open>form\<close>.\<close>

definition zeroall_entry :: element where
  "zeroall_entry =
     Element ''intrinsic'' (map_of [(''name'', ''_mm256_zeroall''), (''tech'', ''AVX'')])
       [Element ''parameter'' (map_of [(''type'', ''void'')]) [],
        Element ''instruction'' (map_of [(''name'', ''VZEROALL'')]) []]"

text \<open>Two instructions, the second without \<^verbatim>\<open>form\<close>.\<close>

definition set1_entry :: element where
  "set1_entry =
     Element ''intrinsic'' (map_of [(''name'', ''_mm_set1_epi32''), (''tech'', ''SSE2'')])
       [Element ''parameter'' (map_of [(''type'', ''int''), (''varname'', ''a'')]) [],
        Element ''instruction'' (map_of [(''name'', ''MOVD''), (''form'', ''xmm, r32'')]) [],
        Element ''instruction'' (map_of [(''name'', ''PSHUFD'')]) []]"

text \<open>An entry without \<^verbatim>\<open>name\<close>: well-formed XML, outside the data model.\<close>

definition nameless_entry :: element where
  "nameless_entry = Element ''intrinsic'' (map_of [(''tech'', ''SSE2'')]) []"

definition example_entries :: "element list" where
  "example_entries = [add_entry, cast_entry, zeroall_entry, set1_entry]"

definition example_root :: element where
  "example_root = Element ''intrinsics_list'' Map.empty example_entries"

text \<open>A file system with one document, at \<^verbatim>\<open>data.xml\<close>.\<close>

definition example_parse :: "string \<Rightarrow> error + element" where
  "example_parse path =
     (if path = ''data.xml'' then Inr example_root else Inl DocumentError)"

definition nameless_root :: element where
  "nameless_root = Element ''intrinsics_list'' Map.empty [nameless_entry]"

definition nameless_parse :: "string \<Rightarrow> error + element" where
  "nameless_parse path =
     (if path = ''data.xml'' then Inr nameless_root else Inl DocumentError)"

section \<open>Lemmas on the loops\<close>

lemmas example_defs = pause_entry_def add_entry_def cast_entry_def zeroall_entry_def
  set1_entry_def nameless_entry_def example_entries_def example_root_def example_parse_def
  nameless_root_def nameless_parse_def

lemmas round_defs = loop_body_def filtered_out_def intrinsic_name_def parameter_text_def
  instruction_line_def getitem_def get_default_def findall_def drop_last2_def
  lower_def lower_char_def char_of_eq_iff
  CBLUE_def CGREEN_def CEND_def CBEIGE_def backspace_def newline_def

lemma add_parameters_texts:
  "map (parameter_text c) ps = map Inr texts \<Longrightarrow>
   add_parameters c ps acc = Inr (acc @ concat texts)"
proof (induction ps arbitrary: acc texts)
  case Nil
  then show ?case by simp
next
  case (Cons p ps)
  then obtain t ts where ts: "texts = t # ts" "parameter_text c p = Inr t"
    "map (parameter_text c) ps = map Inr ts"
    by (cases texts) auto
  with Cons.IH [of ts "acc @ t"] show ?case by simp
qed

lemma parameter_texts_exist:
  "list_all (\<lambda>p. attrib p ''type'' \<noteq> None) ps \<Longrightarrow>
   \<exists>texts. map (parameter_text c) ps = map Inr texts"
proof (induction ps)
  case Nil
  then show ?case by simp
next
  case (Cons p ps)
  then obtain ts where ts: "map (parameter_text c) ps = map Inr ts" by auto
  from Cons.prems obtain ty where "attrib p ''type'' = Some ty" by auto
  then obtain t where "parameter_text c p = Inr t"
    by (simp add: parameter_text_def getitem_def)
  with ts have "map (parameter_text c) (p # ps) = map Inr (t # ts)" by simp
  then show ?case by blast
qed

lemma print_instructions_lines:
  "map (instruction_line c) instrs = map Inr lines \<Longrightarrow>
   print_instructions c instrs = (concat lines, None)"
proof (induction instrs arbitrary: lines)
  case Nil
  then show ?case by simp
next
  case (Cons i instrs)
  then obtain l ls where ls: "lines = l # ls" "instruction_line c i = Inr l"
    "map (instruction_line c) instrs = map Inr ls"
    by (cases lines) auto
  with Cons.IH [of ls] show ?case by simp
qed

lemma instruction_lines_exist:
  "list_all (\<lambda>i. attrib i ''name'' \<noteq> None) instrs \<Longrightarrow>
   \<exists>lines. map (instruction_line c) instrs = map Inr lines"
proof (induction instrs)
  case Nil
  then show ?case by simp
next
  case (Cons i instrs)
  then obtain ls where ls: "map (instruction_line c) instrs = map Inr ls" by auto
  from Cons.prems obtain n where "attrib i ''name'' = Some n" by auto
  then obtain l where "instruction_line c i = Inr l"
    by (simp add: instruction_line_def getitem_def)
  with ls have "map (instruction_line c) (i # instrs) = map Inr (l # ls)" by simp
  then show ?case by blast
qed

lemma well_formed_signature:
  assumes "well_formed e"
  shows "\<exists>n texts. attrib e ''name'' = Some n
           \<and> map (parameter_text c) (findall ''parameter'' e) = map Inr texts
           \<and> intrinsic_name c e = Inr (drop_last2 (n @ ''('' @ concat texts) @ '')'')"
proof -
  from assms obtain n where n: "attrib e ''name'' = Some n"
    by (auto simp: well_formed_def)
  from assms obtain texts where
    t: "map (parameter_text c) (findall ''parameter'' e) = map Inr texts"
    using parameter_texts_exist [of "findall ''parameter'' e" c]
    by (auto simp: well_formed_def)
  have "intrinsic_name c e = Inr (drop_last2 (n @ ''('' @ concat texts) @ '')'')"
    using n add_parameters_texts [OF t, of "n @ ''(''"]
    by (simp add: intrinsic_name_def getitem_def)
  with n t show ?thesis by blast
qed

lemma filtered_out_well_formed:
  "well_formed e \<Longrightarrow> filtered_out tech e = Inr (\<not> passes_filter tech e)"
  by (auto simp: filtered_out_def well_formed_def passes_filter_def getitem_def)

lemma loop_body_filtered:
  "well_formed e \<Longrightarrow> \<not> passes_filter tech e \<Longrightarrow> loop_body sz c tech e = ([], None)"
  by (simp add: loop_body_def filtered_out_well_formed)

lemma loop_body_retained:
  assumes "well_formed e" "passes_filter tech e"
    "intrinsic_name c e = Inr sig"
    "map (instruction_line c) (findall ''instruction'' e) = map Inr lines"
  shows "loop_body sz c tech e =
     (if lines = [] \<and> sz then ([], None)
      else if length lines = 1 then (CBLUE c @ sig @ CEND c @ '': '' @ concat lines, None)
      else (CBLUE c @ sig @ CEND c @ newline @ concat lines, None))"
proof -
  have len: "length (findall ''instruction'' e) = length lines"
    using assms(4) by (metis length_map)
  then have emp: "findall ''instruction'' e = [] \<longleftrightarrow> lines = []"
    by (metis length_0_conv)
  show ?thesis
    using assms(1-3) len emp print_instructions_lines [OF assms(4)]
    by (simp add: loop_body_def filtered_out_well_formed Let_def)
qed

lemma loop_body_no_error:
  assumes "well_formed e"
  shows "snd (loop_body sz c tech e) = None"
proof (cases "passes_filter tech e")
  case False
  with assms show ?thesis by (simp add: loop_body_filtered)
next
  case True
  from well_formed_signature [OF assms, of c] obtain sig where
    s: "intrinsic_name c e = Inr sig" by blast
  from assms obtain lines where
    l: "map (instruction_line c) (findall ''instruction'' e) = map Inr lines"
    using instruction_lines_exist [of "findall ''instruction'' e" c]
    by (auto simp: well_formed_def)
  show ?thesis
    by (simp add: loop_body_retained [OF assms True s l])
qed

lemma main_loop_rounds:
  "list_all (\<lambda>e. snd (loop_body sz c tech e) = None) entries \<Longrightarrow>
   main_loop sz c tech entries = (concat (map (\<lambda>e. fst (loop_body sz c tech e)) entries), None)"
proof (induction entries)
  case Nil
  then show ?case by simp
next
  case (Cons e entries)
  then show ?case
    by (cases "loop_body sz c tech e") simp
qed

lemma main_loop_well_formed:
  assumes "list_all well_formed entries"
  shows "main_loop sz c tech entries =
     (concat (map (\<lambda>e. fst (loop_body sz c tech e)) entries), None)"
proof -
  have "list_all (\<lambda>e. snd (loop_body sz c tech e) = None) entries"
    using assms by (simp add: list_all_iff loop_body_no_error)
  then show ?thesis by (rule main_loop_rounds)
qed


lemma instruction_line_ends:
  "instruction_line c i = Inr l \<Longrightarrow> \<exists>body. l = body @ newline"
  by (auto simp: instruction_line_def Let_def split: sum.splits)

lemma instruction_lines_end:
  "map (instruction_line c) instrs = map Inr lines \<Longrightarrow>
   \<forall>l\<in>set lines. \<exists>body. l = body @ newline"
proof (induction instrs arbitrary: lines)
  case Nil
  then show ?case by simp
next
  case (Cons i instrs)
  then obtain l ls where "lines = l # ls" "instruction_line c i = Inr l"
    "map (instruction_line c) instrs = map Inr ls"
    by (cases lines) auto
  with Cons.IH [of ls] instruction_line_ends [of c i l] show ?case by simp
qed

lemma well_formed_lines:
  assumes "well_formed e"
  shows "\<exists>lines. map (instruction_line c) (findall ''instruction'' e) = map Inr lines"
  using assms instruction_lines_exist [of "findall ''instruction'' e" c]
  by (simp add: well_formed_def)

lemma loop_body_appears:
  assumes "well_formed e"
  shows "(fst (loop_body sz c tech e) \<noteq> []) =
     (passes_filter tech e \<and> \<not> (sz \<and> findall ''instruction'' e = []))"
proof (cases "passes_filter tech e")
  case False
  with assms show ?thesis by (simp add: loop_body_filtered)
next
  case True
  from well_formed_signature [OF assms, of c] obtain sig where
    s: "intrinsic_name c e = Inr sig" by blast
  from well_formed_lines [OF assms, of c] obtain lines where
    l: "map (instruction_line c) (findall ''instruction'' e) = map Inr lines" by blast
  have "length (findall ''instruction'' e) = length lines"
    using l by (metis length_map)
  then have emp: "findall ''instruction'' e = [] \<longleftrightarrow> lines = []"
    by (metis length_0_conv)
  show ?thesis
    using True emp
    by (auto simp: loop_body_retained [OF assms True s l] newline_def)
qed

lemma colour_has_no_line_break:
  "CHR 0x0A \<notin> set (CBLUE c)" "CHR 0x0A \<notin> set (CEND c)"
  by (simp_all add: CBLUE_def CEND_def)

lemma concat_map_nonempty:
  "concat (map f (filter (\<lambda>x. f x \<noteq> []) xs)) = concat (map f xs)"
  by (induction xs) auto

lemma main_loop_retained:
  assumes "list_all well_formed entries"
  shows "main_loop sz c tech entries =
     (concat (map (\<lambda>e. fst (loop_body sz c tech e))
        (filter (\<lambda>e. passes_filter tech e \<and> \<not> (sz \<and> findall ''instruction'' e = []))
           entries)), None)"
proof -
  have "filter (\<lambda>e. passes_filter tech e \<and> \<not> (sz \<and> findall ''instruction'' e = [])) entries
      = filter (\<lambda>e. fst (loop_body sz c tech e) \<noteq> []) entries"
    using assms by (intro filter_cong refl) (simp add: list_all_iff loop_body_appears)
  then show ?thesis
    using main_loop_well_formed [OF assms, of sz c tech]
    by (simp add: concat_map_nonempty [of "\<lambda>e. fst (loop_body sz c tech e)" entries])
qed

lemma intrinsic_name_no_parameters:
  "findall ''parameter'' e = [] \<Longrightarrow> attrib e ''name'' = Some n \<Longrightarrow>
   intrinsic_name c e = Inr (butlast n @ '')'')"
  by (simp add: intrinsic_name_def getitem_def drop_last2_def butlast_conv_take)

lemma example_well_formed: "list_all well_formed example_entries"
  by (simp add: well_formed_def example_defs findall_def)

section \<open>Properties\<close>

text \<open>
  C1. The specification gives an entry with no parameter the signature \<open>name()\<close>. The
  script strips two characters before the closing parenthesis whether or not a
  parameter was added: for the entry \<open>_mm_pause\<close> with no parameter child the signature
  is \<open>_mm_paus)\<close>, not \<open>_mm_pause()\<close>.
\<close>

theorem C1_no_parameters_loses_a_character:
  "intrinsic_name colors pause_entry = Inr ''_mm_paus)''
   \<and> intrinsic_name colors pause_entry \<noteq> Inr ''_mm_pause()''"
  by (simp add: intrinsic_name_def pause_entry_def getitem_def findall_def drop_last2_def)

text \<open>
  C2, as stated, fails. The document whose only entry has no \<^verbatim>\<open>name\<close> attribute parses,
  and the run ends in the uncaught \<^verbatim>\<open>KeyError\<close> of \<^verbatim>\<open>child.attrib["name"]\<close>: the
  attributes \<^verbatim>\<open>name\<close>, \<^verbatim>\<open>tech\<close> and \<^verbatim>\<open>type\<close> are read with \<^verbatim>\<open>[...]\<close>, only
  \<^verbatim>\<open>varname\<close> and \<^verbatim>\<open>form\<close> with \<^verbatim>\<open>.get\<close> and a default.
\<close>

theorem C2_missing_name_counterexample:
  "nameless_parse ''data.xml'' = Inr nameless_root
   \<and> status (script SKIPZERO COLORS nameless_parse [''filter-intel-xml.py'', ''data.xml''])
       = Uncaught (KeyError ''name'')"
  by (simp add: script_def tech_arg_def example_defs round_defs)

text \<open>
  C2, amended. When the document parses and every child of its root carries the
  attributes the data model requires (\<open>well_formed\<close>), filtering and formatting raise
  nothing and the run ends with status 0, for either setting of the skip rule and of the
  colours and for any tag. The optional attributes may be missing.
\<close>

theorem C2_well_formed_document_never_fails:
  assumes "2 \<le> length argv"
    and "parse (argv ! 1) = Inr root"
    and "list_all well_formed (children root)"
  shows "status (script skipzero colors parse argv) = Exit 0"
  using assms(1,2) main_loop_well_formed [OF assms(3), of skipzero colors "tech_arg argv"]
  by (simp add: script_def)

theorem C2_well_formed_document_never_fails_witness:
  "2 \<le> length [''filter-intel-xml.py'', ''data.xml'', ''AVX'']
   \<and> example_parse ([''filter-intel-xml.py'', ''data.xml'', ''AVX''] ! 1) = Inr example_root
   \<and> list_all well_formed (children example_root)
   \<and> status (script SKIPZERO COLORS example_parse
         [''filter-intel-xml.py'', ''data.xml'', ''AVX'']) = Exit 0"
proof -
  let ?argv = "[''filter-intel-xml.py'', ''data.xml'', ''AVX'']"
  have a: "2 \<le> length ?argv" by simp
  have p: "example_parse (?argv ! 1) = Inr example_root"
    by (simp add: example_parse_def)
  have w: "list_all well_formed (children example_root)"
    using example_well_formed by (simp add: example_root_def)
  show ?thesis
    using a p w
      C2_well_formed_document_never_fails [of ?argv example_parse example_root SKIPZERO COLORS]
    by blast
qed




text \<open>
  C4. An entry with no instruction child prints nothing when the skip rule is on. When
  the rule is off and the entry (of the data model) passes the filter, the round prints
  the coloured signature and one line break, nothing else: one line, provided the
  signature itself holds no line break.
\<close>

theorem C4_skip_rule:
  assumes "findall ''instruction'' e = []"
  shows "fst (loop_body True colors tech e) = []
     \<and> (well_formed e \<and> passes_filter tech e \<longrightarrow>
          (\<exists>sig. intrinsic_name colors e = Inr sig
             \<and> loop_body False colors tech e = (CBLUE colors @ sig @ CEND colors @ newline, None)
             \<and> (CHR 0x0A \<notin> set sig \<longrightarrow>
                  length (filter (\<lambda>x. x = CHR 0x0A) (fst (loop_body False colors tech e))) = 1)))"
proof (intro conjI impI)
  show "fst (loop_body True colors tech e) = []"
    using assms by (simp add: loop_body_def split: sum.splits bool.splits)
next
  assume wf: "well_formed e \<and> passes_filter tech e"
  from well_formed_signature [of e colors] wf obtain sig where
    s: "intrinsic_name colors e = Inr sig" by blast
  have l: "map (instruction_line colors) (findall ''instruction'' e) = map Inr []"
    using assms by simp
  have body: "loop_body False colors tech e = (CBLUE colors @ sig @ CEND colors @ newline, None)"
    using wf loop_body_retained [OF _ _ s l, of tech False] by simp
  have "CHR 0x0A \<notin> set sig \<longrightarrow>
      length (filter (\<lambda>x. x = CHR 0x0A) (fst (loop_body False colors tech e))) = 1"
    using colour_has_no_line_break [of colors]
    by (auto simp: body newline_def filter_empty_conv)
  with s body show "\<exists>sig. intrinsic_name colors e = Inr sig
      \<and> loop_body False colors tech e = (CBLUE colors @ sig @ CEND colors @ newline, None)
      \<and> (CHR 0x0A \<notin> set sig \<longrightarrow>
           length (filter (\<lambda>x. x = CHR 0x0A) (fst (loop_body False colors tech e))) = 1)"
    by blast
qed

theorem C4_skip_rule_witness:
  "findall ''instruction'' cast_entry = []
   \<and> well_formed cast_entry \<and> passes_filter ''SSE2'' cast_entry
   \<and> CHR 0x0A \<notin> set ''_mm_castps_si128(__m128 a)''
   \<and> fst (loop_body True False ''SSE2'' cast_entry) = []
   \<and> loop_body False False ''SSE2'' cast_entry = (''_mm_castps_si128(__m128 a)'' @ newline, None)
   \<and> length (filter (\<lambda>x. x = CHR 0x0A) (fst (loop_body False False ''SSE2'' cast_entry))) = 1"
proof -
  have i: "findall ''instruction'' cast_entry = []"
    by (simp add: cast_entry_def findall_def)
  have w: "well_formed cast_entry" "passes_filter ''SSE2'' cast_entry"
    by (simp_all add: well_formed_def passes_filter_def cast_entry_def findall_def)
  have s: "intrinsic_name False cast_entry = Inr ''_mm_castps_si128(__m128 a)''"
    by (simp add: cast_entry_def round_defs)
  have n: "CHR 0x0A \<notin> set ''_mm_castps_si128(__m128 a)''"
    by simp
  from C4_skip_rule [OF i, of False "''SSE2''"] w s n
  have "fst (loop_body True False ''SSE2'' cast_entry) = []"
    and "loop_body False False ''SSE2'' cast_entry =
      (''_mm_castps_si128(__m128 a)'' @ newline, None)"
    and "length (filter (\<lambda>x. x = CHR 0x0A) (fst (loop_body False False ''SSE2'' cast_entry))) = 1"
    by (auto simp: CBLUE_def CEND_def)
  with i w n show ?thesis by blast
qed

text \<open>
  C5. For an entry of the data model that passes the filter, every instruction line
  ends with a line break. With exactly one instruction the round prints the coloured
  signature, then \<open>: \<close>, then the instruction line, all on one line; with two or
  more it prints the coloured signature and a line break, then the instruction lines
  one after the other.
\<close>

theorem C5_one_or_many:
  assumes "well_formed e" and "passes_filter tech e"
  shows "\<exists>sig lines.
       intrinsic_name colors e = Inr sig
     \<and> map (instruction_line colors) (findall ''instruction'' e) = map Inr lines
     \<and> (\<forall>l\<in>set lines. \<exists>body. l = body @ newline)
     \<and> (length lines = 1 \<longrightarrow>
          loop_body skipzero colors tech e =
            (CBLUE colors @ sig @ CEND colors @ '': '' @ hd lines, None))
     \<and> (2 \<le> length lines \<longrightarrow>
          loop_body skipzero colors tech e =
            (CBLUE colors @ sig @ CEND colors @ newline @ concat lines, None))"
proof -
  from well_formed_signature [OF assms(1), of colors] obtain sig where
    s: "intrinsic_name colors e = Inr sig" by blast
  from well_formed_lines [OF assms(1), of colors] obtain lines where
    l: "map (instruction_line colors) (findall ''instruction'' e) = map Inr lines" by blast
  note body = loop_body_retained [OF assms s l, of skipzero]
  have one: "length lines = 1 \<longrightarrow>
      loop_body skipzero colors tech e =
        (CBLUE colors @ sig @ CEND colors @ '': '' @ hd lines, None)"
  proof
    assume "length lines = 1"
    then obtain x where "lines = [x]"
      by (cases lines) auto
    then show "loop_body skipzero colors tech e =
        (CBLUE colors @ sig @ CEND colors @ '': '' @ hd lines, None)"
      by (simp add: body)
  qed
  have many: "2 \<le> length lines \<longrightarrow>
      loop_body skipzero colors tech e =
        (CBLUE colors @ sig @ CEND colors @ newline @ concat lines, None)"
    by (auto simp: body)
  from s l instruction_lines_end [OF l] one many show ?thesis by blast
qed

theorem C5_one_or_many_witness:
  "well_formed add_entry \<and> passes_filter ''SSE2'' add_entry
   \<and> well_formed set1_entry \<and> passes_filter ''SSE2'' set1_entry
   \<and> loop_body True False ''SSE2'' add_entry =
       (''_mm_add_epi32(__m128i a, __m128i b): paddd xmm, xmm'' @ newline, None)
   \<and> loop_body True False ''SSE2'' set1_entry =
       (''_mm_set1_epi32(int a)'' @ newline @ ''movd xmm, r32'' @ newline
          @ ''pshufd '' @ backspace @ newline, None)"
proof -
  have w: "well_formed add_entry" "passes_filter ''SSE2'' add_entry"
    "well_formed set1_entry" "passes_filter ''SSE2'' set1_entry"
    by (simp_all add: well_formed_def passes_filter_def example_defs findall_def)
  have sa: "intrinsic_name False add_entry = Inr ''_mm_add_epi32(__m128i a, __m128i b)''"
    by (simp add: add_entry_def round_defs)
  have la: "map (instruction_line False) (findall ''instruction'' add_entry) =
      map Inr [''paddd xmm, xmm'' @ newline]"
    by (simp add: add_entry_def round_defs)
  have ss: "intrinsic_name False set1_entry = Inr ''_mm_set1_epi32(int a)''"
    by (simp add: set1_entry_def round_defs)
  have ls: "map (instruction_line False) (findall ''instruction'' set1_entry) =
      map Inr [''movd xmm, r32'' @ newline, ''pshufd '' @ backspace @ newline]"
    by (simp add: set1_entry_def round_defs)
  have a: "loop_body True False ''SSE2'' add_entry =
      (''_mm_add_epi32(__m128i a, __m128i b): paddd xmm, xmm'' @ newline, None)"
    using C5_one_or_many [OF w(1,2), of False True] sa la
    by (auto simp: CBLUE_def CEND_def)
  have b: "loop_body True False ''SSE2'' set1_entry =
      (''_mm_set1_epi32(int a)'' @ newline @ ''movd xmm, r32'' @ newline
         @ ''pshufd '' @ backspace @ newline, None)"
    using C5_one_or_many [OF w(3,4), of False True] ss ls
    by (auto simp: CBLUE_def CEND_def)
  from w a b show ?thesis by blast
qed

text \<open>
  C6. For entries of the data model, the output is the concatenation, in document
  order, of the blocks of the entries that are kept (\<open>filter\<close> and \<open>map\<close> keep the order
  of the list). Within an entry, the signature is the name, the opening parenthesis and
  the texts of the \<^verbatim>\<open>parameter\<close> children in document order (less the last two
  characters, plus the closing parenthesis), and the block is the header followed by
  the lines of the \<^verbatim>\<open>instruction\<close> children in document order.
\<close>

theorem C6_document_order:
  assumes "list_all well_formed entries"
  shows "main_loop skipzero colors tech entries =
       (concat (map (\<lambda>e. fst (loop_body skipzero colors tech e))
          (filter (\<lambda>e. passes_filter tech e
                        \<and> \<not> (skipzero \<and> findall ''instruction'' e = [])) entries)), None)
     \<and> (\<forall>e\<in>set entries. \<exists>n texts lines.
           attrib e ''name'' = Some n
         \<and> map (parameter_text colors) (findall ''parameter'' e) = map Inr texts
         \<and> intrinsic_name colors e = Inr (drop_last2 (n @ ''('' @ concat texts) @ '')'')
         \<and> map (instruction_line colors) (findall ''instruction'' e) = map Inr lines
         \<and> (passes_filter tech e \<and> \<not> (skipzero \<and> lines = []) \<longrightarrow>
              fst (loop_body skipzero colors tech e) =
                CBLUE colors @ drop_last2 (n @ ''('' @ concat texts) @ '')'' @ CEND colors
                @ (if length lines = 1 then '': '' else newline) @ concat lines))"
proof (intro conjI ballI)
  show "main_loop skipzero colors tech entries =
       (concat (map (\<lambda>e. fst (loop_body skipzero colors tech e))
          (filter (\<lambda>e. passes_filter tech e
                        \<and> \<not> (skipzero \<and> findall ''instruction'' e = [])) entries)), None)"
    by (rule main_loop_retained [OF assms])
next
  fix e assume "e \<in> set entries"
  with assms have wf: "well_formed e"
    by (simp add: list_all_iff)
  from well_formed_signature [OF wf, of colors] obtain n texts where
    n: "attrib e ''name'' = Some n"
    and t: "map (parameter_text colors) (findall ''parameter'' e) = map Inr texts"
    and s: "intrinsic_name colors e = Inr (drop_last2 (n @ ''('' @ concat texts) @ '')'')"
    by blast
  from well_formed_lines [OF wf, of colors] obtain lines where
    l: "map (instruction_line colors) (findall ''instruction'' e) = map Inr lines" by blast
  have "passes_filter tech e \<and> \<not> (skipzero \<and> lines = []) \<longrightarrow>
      fst (loop_body skipzero colors tech e) =
        CBLUE colors @ drop_last2 (n @ ''('' @ concat texts) @ '')'' @ CEND colors
        @ (if length lines = 1 then '': '' else newline) @ concat lines"
    using loop_body_retained [OF wf _ s l, of tech skipzero] by auto
  with n t s l show "\<exists>n texts lines.
           attrib e ''name'' = Some n
         \<and> map (parameter_text colors) (findall ''parameter'' e) = map Inr texts
         \<and> intrinsic_name colors e = Inr (drop_last2 (n @ ''('' @ concat texts) @ '')'')
         \<and> map (instruction_line colors) (findall ''instruction'' e) = map Inr lines
         \<and> (passes_filter tech e \<and> \<not> (skipzero \<and> lines = []) \<longrightarrow>
              fst (loop_body skipzero colors tech e) =
                CBLUE colors @ drop_last2 (n @ ''('' @ concat texts) @ '')'' @ CEND colors
                @ (if length lines = 1 then '': '' else newline) @ concat lines)"
    by blast
qed

theorem C6_document_order_witness:
  "list_all well_formed example_entries
   \<and> main_loop True False [] example_entries =
      (''_mm_add_epi32(__m128i a, __m128i b): paddd xmm, xmm'' @ newline
       @ ''_mm256_zeroall(void '' @ backspace @ ''): vzeroall '' @ backspace @ newline
       @ ''_mm_set1_epi32(int a)'' @ newline @ ''movd xmm, r32'' @ newline
       @ ''pshufd '' @ backspace @ newline, None)
   \<and> passes_filter [] set1_entry
   \<and> fst (loop_body True False [] set1_entry) =
       ''_mm_set1_epi32(int a)'' @ newline @ ''movd xmm, r32'' @ newline
       @ ''pshufd '' @ backspace @ newline"
proof -
  have w: "list_all well_formed example_entries"
    by (rule example_well_formed)
  note order = C6_document_order [OF w, of True False "[]"]
  have "main_loop True False [] example_entries =
      (concat (map (\<lambda>e. fst (loop_body True False [] e))
         (filter (\<lambda>e. passes_filter [] e \<and> \<not> (True \<and> findall ''instruction'' e = []))
            example_entries)), None)"
    using order by (rule conjunct1)
  also have "\<dots> =
      (''_mm_add_epi32(__m128i a, __m128i b): paddd xmm, xmm'' @ newline
       @ ''_mm256_zeroall(void '' @ backspace @ ''): vzeroall '' @ backspace @ newline
       @ ''_mm_set1_epi32(int a)'' @ newline @ ''movd xmm, r32'' @ newline
       @ ''pshufd '' @ backspace @ newline, None)"
    by (simp add: passes_filter_def example_defs round_defs)
  finally have out: "main_loop True False [] example_entries =
      (''_mm_add_epi32(__m128i a, __m128i b): paddd xmm, xmm'' @ newline
       @ ''_mm256_zeroall(void '' @ backspace @ ''): vzeroall '' @ backspace @ newline
       @ ''_mm_set1_epi32(int a)'' @ newline @ ''movd xmm, r32'' @ newline
       @ ''pshufd '' @ backspace @ newline, None)" .
  have p: "passes_filter [] set1_entry"
    by (simp add: passes_filter_def)
  have m: "set1_entry \<in> set example_entries"
    by (simp add: example_entries_def)
  have t: "map (parameter_text False) (findall ''parameter'' set1_entry) = map Inr [''int a, '']"
    by (simp add: set1_entry_def round_defs)
  have l: "map (instruction_line False) (findall ''instruction'' set1_entry) =
      map Inr [''movd xmm, r32'' @ newline, ''pshufd '' @ backspace @ newline]"
    by (simp add: set1_entry_def round_defs)
  have a: "attrib set1_entry ''name'' = Some ''_mm_set1_epi32''"
    by (simp add: set1_entry_def)
  from order have "\<forall>e\<in>set example_entries. \<exists>n texts lines.
           attrib e ''name'' = Some n
         \<and> map (parameter_text False) (findall ''parameter'' e) = map Inr texts
         \<and> intrinsic_name False e = Inr (drop_last2 (n @ ''('' @ concat texts) @ '')'')
         \<and> map (instruction_line False) (findall ''instruction'' e) = map Inr lines
         \<and> (passes_filter [] e \<and> \<not> (True \<and> lines = []) \<longrightarrow>
              fst (loop_body True False [] e) =
                CBLUE False @ drop_last2 (n @ ''('' @ concat texts) @ '')'' @ CEND False
                @ (if length lines = 1 then '': '' else newline) @ concat lines)"
    by (rule conjunct2)
  with m obtain n texts lines where
    e: "attrib set1_entry ''name'' = Some n"
      "map (parameter_text False) (findall ''parameter'' set1_entry) = map Inr texts"
      "map (instruction_line False) (findall ''instruction'' set1_entry) = map Inr lines"
      "passes_filter [] set1_entry \<and> \<not> (True \<and> lines = []) \<longrightarrow>
         fst (loop_body True False [] set1_entry) =
           CBLUE False @ drop_last2 (n @ ''('' @ concat texts) @ '')'' @ CEND False
           @ (if length lines = 1 then '': '' else newline) @ concat lines"
    by blast
  have n: "n = ''_mm_set1_epi32''"
    using a e(1) by simp
  have texts: "texts = [''int a, '']"
    using t e(2) by auto
  have lines: "lines = [''movd xmm, r32'' @ newline, ''pshufd '' @ backspace @ newline]"
    using l e(3) by auto
  have "fst (loop_body True False [] set1_entry) =
       ''_mm_set1_epi32(int a)'' @ newline @ ''movd xmm, r32'' @ newline
       @ ''pshufd '' @ backspace @ newline"
    using e(4) p by (simp add: n texts lines CBLUE_def CEND_def drop_last2_def)
  with w out p show ?thesis by blast
qed

text \<open>
  C7. A parameter with a \<^verbatim>\<open>type\<close> and no \<^verbatim>\<open>varname\<close> is rendered with the backspace
  in place of the name, and an instruction with a \<^verbatim>\<open>name\<close> and no \<^verbatim>\<open>form\<close> is
  printed with the backspace in place of the form; neither raises.
\<close>

theorem C7_placeholder_for_missing_optional:
  "(attrib p ''varname'' = None \<and> attrib p ''type'' = Some ty \<longrightarrow>
      parameter_text colors p =
        Inr (CBEIGE colors @ ty @ CBLUE colors @ '' '' @ backspace @ '', ''))
   \<and> (attrib i ''form'' = None \<and> attrib i ''name'' = Some n \<longrightarrow>
      instruction_line colors i =
        Inr (CGREEN colors @ lower n @ CEND colors @ '' '' @ backspace @ newline))"
  by (simp add: parameter_text_def instruction_line_def getitem_def get_default_def)

theorem C7_placeholder_for_missing_optional_witness:
  "attrib (Element ''parameter'' (map_of [(''type'', ''void'')]) []) ''varname'' = None
   \<and> attrib (Element ''parameter'' (map_of [(''type'', ''void'')]) []) ''type'' = Some ''void''
   \<and> parameter_text False (Element ''parameter'' (map_of [(''type'', ''void'')]) []) =
       Inr (''void '' @ backspace @ '', '')
   \<and> attrib (Element ''instruction'' (map_of [(''name'', ''VZEROALL'')]) []) ''form'' = None
   \<and> attrib (Element ''instruction'' (map_of [(''name'', ''VZEROALL'')]) []) ''name''
       = Some ''VZEROALL''
   \<and> instruction_line False (Element ''instruction'' (map_of [(''name'', ''VZEROALL'')]) []) =
       Inr (''vzeroall '' @ backspace @ newline)"
  using C7_placeholder_for_missing_optional
    [of "Element ''parameter'' (map_of [(''type'', ''void'')]) []" "''void''" False
        "Element ''instruction'' (map_of [(''name'', ''VZEROALL'')]) []" "''VZEROALL''"]
  by (simp add: CBEIGE_def CBLUE_def CGREEN_def CEND_def lower_def lower_char_def char_of_eq_iff)

text \<open>
  C8. The line printed for an instruction whose name is ASCII text is that name in
  lower case (between the colour codes when colours are on), a space, and the
  \<^verbatim>\<open>form\<close> attribute or, when that is absent, the backspace; then the line break of
  \<^verbatim>\<open>print\<close>. Without colours it is exactly the lower-case name, a space and the form.
  The name is taken to be ASCII because \<open>lower\<close> is \<^verbatim>\<open>str.lower()\<close> on such names only.
\<close>

theorem C8_instruction_line:
  assumes "attrib i ''name'' = Some n"
    and "ascii n"
  shows "instruction_line colors i =
       Inr (CGREEN colors @ lower n @ CEND colors @ '' ''
            @ (case attrib i ''form'' of None \<Rightarrow> backspace | Some f \<Rightarrow> f) @ newline)
     \<and> instruction_line False i =
       Inr (lower n @ '' ''
            @ (case attrib i ''form'' of None \<Rightarrow> backspace | Some f \<Rightarrow> f) @ newline)"
  using assms(1)
  by (simp add: instruction_line_def getitem_def get_default_def CGREEN_def CEND_def)

theorem C8_instruction_line_witness:
  "attrib (Element ''instruction'' (map_of [(''name'', ''PADDD''), (''form'', ''xmm, xmm'')]) [])
     ''name'' = Some ''PADDD''
   \<and> ascii ''PADDD''
   \<and> lower ''PADDD'' = ''paddd''
   \<and> instruction_line False
       (Element ''instruction'' (map_of [(''name'', ''PADDD''), (''form'', ''xmm, xmm'')]) [])
     = Inr (''paddd xmm, xmm'' @ newline)"
proof -
  let ?i = "Element ''instruction'' (map_of [(''name'', ''PADDD''), (''form'', ''xmm, xmm'')]) []"
  have n: "attrib ?i ''name'' = Some ''PADDD''" by simp
  have a: "ascii ''PADDD''"
    by (simp add: ascii_def)
  have low: "lower ''PADDD'' = ''paddd''"
    by (simp add: lower_def lower_char_def char_of_eq_iff)
  from C8_instruction_line [OF n a, of True]
  have "instruction_line False ?i = Inr (lower ''PADDD'' @ '' '' @ ''xmm, xmm'' @ newline)"
    by simp
  with n a low show ?thesis by simp
qed

text \<open>
  C9. With fewer than two elements in \<^verbatim>\<open>sys.argv\<close> the script prints
  \<^verbatim>\<open>Not enough arguments\<close> and a line break on standard output, hands no path to the
  parser and exits with status 1, whatever the file system holds.
\<close>

theorem C9_missing_path_argument:
  assumes "length argv < 2"
  shows "script skipzero colors parse argv =
     \<lparr>stdout = ''Not enough arguments'' @ newline, parsed = [], status = Exit 1\<rparr>"
  using assms by (simp add: script_def)

theorem C9_missing_path_argument_witness:
  "length [''filter-intel-xml.py''] < 2
   \<and> script SKIPZERO COLORS example_parse [''filter-intel-xml.py''] =
     \<lparr>stdout = ''Not enough arguments'' @ newline, parsed = [], status = Exit 1\<rparr>"
  using C9_missing_path_argument [of "[''filter-intel-xml.py'']" SKIPZERO COLORS example_parse]
  by simp

text \<open>
  C10. With more than three elements in \<^verbatim>\<open>sys.argv\<close> (more than two arguments after
  the script name) the tag stays empty, and the run is the run on the script name and
  the path alone: every entry is printed as if no tag had been given.
\<close>

theorem C10_extra_arguments_drop_the_tag:
  assumes "3 < length argv"
  shows "tech_arg argv = []
     \<and> script skipzero colors parse argv = script skipzero colors parse [argv ! 0, argv ! 1]"
  using assms by (simp add: script_def tech_arg_def)

theorem C10_extra_arguments_drop_the_tag_witness:
  "3 < length [''filter-intel-xml.py'', ''data.xml'', ''AVX'', ''SSE2'']
   \<and> tech_arg [''filter-intel-xml.py'', ''data.xml'', ''AVX'', ''SSE2''] = []
   \<and> script SKIPZERO COLORS example_parse [''filter-intel-xml.py'', ''data.xml'', ''AVX'', ''SSE2'']
     = script SKIPZERO COLORS example_parse [''filter-intel-xml.py'', ''data.xml'']"
  using C10_extra_arguments_drop_the_tag
    [of "[''filter-intel-xml.py'', ''data.xml'', ''AVX'', ''SSE2'']" SKIPZERO COLORS example_parse]
  by simp

end
